theory Spec2Isabelle
  imports Complex_Main "HOL-Library.Char_ord" "HOL-Library.List_Lexorder"
begin

section \<open>The batch job of \<^verbatim>\<open>run.py\<close>\<close>

text \<open>
  The job reads a YAML configuration and a CSV table, compares every \<^verbatim>\<open>close\<close> value with
  its trailing rolling mean, and reports the share of rows whose signal is 1.

  What the model fixes about the world outside \<^verbatim>\<open>run.py\<close>:
  \<^item> a file is described by what reading it yields: it is absent, the parser rejects it
    (with the parser's message), or it parses to a value. An existing file is taken to be
    readable;
  \<^item> numbers of the table are exact rationals, a missing value (NaN) is \<open>None\<close>; the
    infinities and the rounding error of binary floating point are outside the model;
  \<^item> \<^verbatim>\<open>rolling(window, min_periods).mean()\<close> follows its documentation: the mean of the
    observations among the last \<open>window\<close> rows, where at least \<open>min_periods\<close> of them are
    observations, and NaN otherwise;
  \<^item> the model starts once the command line is parsed and the log file is open.
\<close>

subsection \<open>Python values and exceptions\<close>

datatype py_value =
    PNone
  | PBool bool
  | PInt int
  | PFloat rat
  | PStr string
  | PList "py_value list"
  | PDict "(py_value \<times> py_value) list"

type_synonym py_dict = "(py_value \<times> py_value) list"

datatype exc_class =
  FileNotFoundError | ValueError | KeyError | TypeError | DataError | OSError

text \<open>An exception is its class and the text \<^verbatim>\<open>str(exc)\<close> gives.\<close>

type_synonym py_exc = "exc_class \<times> string"

text \<open>\<^verbatim>\<open>isinstance(v, int)\<close>: \<^verbatim>\<open>bool\<close> is a subclass of \<^verbatim>\<open>int\<close>.\<close>

fun isinstance_int :: "py_value \<Rightarrow> bool" where
  "isinstance_int (PInt n) = True"
| "isinstance_int (PBool b) = True"
| "isinstance_int v = False"

fun isinstance_str :: "py_value \<Rightarrow> bool" where
  "isinstance_str (PStr s) = True"
| "isinstance_str v = False"


text \<open>The number an \<^verbatim>\<open>int\<close> (or \<^verbatim>\<open>bool\<close>) stands for in a comparison.\<close>

fun int_of :: "py_value \<Rightarrow> int" where
  "int_of (PInt n) = n"
| "int_of (PBool b) = (if b then 1 else 0)"
| "int_of v = 0"

text \<open>Truth value of a string: \<^verbatim>\<open>not version\<close> holds for the empty string.\<close>

fun str_of :: "py_value \<Rightarrow> string" where
  "str_of (PStr s) = s"
| "str_of v = []"

text \<open>
  The names among the keys of a mapping. A key that is no string equals none of the
  required names, so only these decide \<^verbatim>\<open>required_keys - set(cfg.keys())\<close>.
\<close>

fun key_names :: "py_dict \<Rightarrow> string set" where
  "key_names [] = {}"
| "key_names ((PStr s, v) # d) = insert s (key_names d)"
| "key_names ((k, v) # d) = key_names d"

text \<open>\<^verbatim>\<open>repr\<close> of a list of plain names, as an f-string prints it: \<^verbatim>\<open>['seed', 'window']\<close>.\<close>

definition repr_str :: "string \<Rightarrow> string" where
  "repr_str s = [CHR 0x27] @ s @ [CHR 0x27]"

fun join :: "string \<Rightarrow> string list \<Rightarrow> string" where
  "join sep [] = []"
| "join sep [x] = x"
| "join sep (x # y # ys) = x @ sep @ join sep (y # ys)"

definition repr_list :: "string list \<Rightarrow> string" where
  "repr_list xs = ''['' @ join '', '' (map repr_str xs) @ '']''"

subsection \<open>\<^verbatim>\<open>load_config\<close>\<close>

datatype yaml_file =
    NoConfig
  | BadYaml string
  | Yaml py_value

record run_config =
  seed :: py_value
  window :: py_value
  version :: py_value

definition required_keys :: "string set" where
  "required_keys = {''seed'', ''window'', ''version''}"

definition getitem :: "py_dict \<Rightarrow> string \<Rightarrow> py_exc + py_value" where
  "getitem d k =
     (case map_of d (PStr k) of
        None \<Rightarrow> Inl (KeyError, repr_str k)
      | Some v \<Rightarrow> Inr v)"

definition check_fields :: "py_value \<Rightarrow> py_value \<Rightarrow> py_value \<Rightarrow> py_exc + run_config" where
  "check_fields sd w ver =
     (if \<not> isinstance_int sd then
        Inl (ValueError, ''Invalid configuration file structure: 'seed' must be an integer.'')
      else if \<not> isinstance_int w \<or> int_of w \<le> 0 then
        Inl (ValueError,
          ''Invalid configuration file structure: 'window' must be a positive integer.'')
      else if \<not> isinstance_str ver \<or> str_of ver = [] then
        Inl (ValueError,
          ''Invalid configuration file structure: 'version' must be a non-empty string.'')
      else Inr \<lparr>seed = sd, window = w, version = ver\<rparr>)"

definition load_config :: "string \<Rightarrow> yaml_file \<Rightarrow> py_exc + run_config" where
  "load_config config_path f =
     (case f of
        NoConfig \<Rightarrow> Inl (FileNotFoundError, ''Config file not found: '' @ config_path)
      | BadYaml exc \<Rightarrow> Inl (ValueError, ''Invalid YAML config format: '' @ exc)
      | Yaml cfg \<Rightarrow>
          (case cfg of
             PDict d \<Rightarrow>
               (let missing = required_keys - key_names d in
                if missing \<noteq> {} then
                  Inl (ValueError,
                    ''Invalid configuration file structure: missing keys '' @
                      repr_list (sorted_list_of_set missing))
                else
                  (case getitem d ''seed'' of
                     Inl e \<Rightarrow> Inl e
                   | Inr sd \<Rightarrow>
                       (case getitem d ''window'' of
                          Inl e \<Rightarrow> Inl e
                        | Inr w \<Rightarrow>
                            (case getitem d ''version'' of
                               Inl e \<Rightarrow> Inl e
                             | Inr ver \<Rightarrow> check_fields sd w ver))))
           | _ \<Rightarrow>
               Inl (ValueError,
                 ''Invalid configuration file structure: expected a YAML mapping.'')))"

subsection \<open>\<^verbatim>\<open>load_data\<close>\<close>

text \<open>A cell of a numeric column: a number, or \<open>None\<close> for a missing value (NaN).\<close>

type_synonym cell = "rat option"

datatype column =
    Numeric "cell list"
  | Object "string list"

fun col_len :: "column \<Rightarrow> nat" where
  "col_len (Numeric xs) = length xs"
| "col_len (Object xs) = length xs"

record dataframe =
  nrows :: nat
  columns :: "(string \<times> column) list"

text \<open>Every column of a frame has one entry per row.\<close>

definition wf_df :: "dataframe \<Rightarrow> bool" where
  "wf_df df = list_all (\<lambda>(name, c). col_len c = nrows df) (columns df)"

text \<open>\<^verbatim>\<open>df.empty\<close>: one of the two axes has length 0.\<close>

definition df_empty :: "dataframe \<Rightarrow> bool" where
  "df_empty df = (nrows df = 0 \<or> columns df = [])"

text \<open>
  What \<^verbatim>\<open>pd.read_csv\<close> does with the file: \<open>EmptyData\<close> and \<open>ParserError\<close> are the two
  exceptions \<^verbatim>\<open>load_data\<close> names, \<open>ReadError\<close> is any other exception.
\<close>

datatype csv_file =
    NoInput
  | EmptyData
  | ParserError string
  | ReadError string
  | Csv dataframe

definition load_data :: "string \<Rightarrow> csv_file \<Rightarrow> py_exc + dataframe" where
  "load_data input_path f =
     (case f of
        NoInput \<Rightarrow> Inl (FileNotFoundError, ''Input file not found: '' @ input_path)
      | EmptyData \<Rightarrow> Inl (ValueError, ''Empty input file.'')
      | ParserError exc \<Rightarrow> Inl (ValueError, ''Invalid CSV file format: '' @ exc)
      | ReadError exc \<Rightarrow> Inl (ValueError, ''Invalid CSV file format: '' @ exc)
      | Csv df \<Rightarrow>
          (if df_empty df then Inl (ValueError, ''Empty input file.'')
           else if ''close'' \<notin> set (map fst (columns df)) then
             Inl (ValueError, ''Missing required columns in dataset: ['close']'')
           else Inr df))"

subsection \<open>\<^verbatim>\<open>generate_signals\<close>\<close>

text \<open>
  The observations of the window that ends at row \<open>i\<close>: the cells of rows
  \<open>max 0 (i + 1 - w)\<close> to \<open>i\<close> that hold a number.
\<close>

definition window_obs :: "nat \<Rightarrow> cell list \<Rightarrow> nat \<Rightarrow> rat list" where
  "window_obs w xs i =
     (let start = Suc i - w in
      List.map_filter id (take (Suc i - start) (drop start xs)))"

definition window_mean :: "nat \<Rightarrow> nat \<Rightarrow> cell list \<Rightarrow> nat \<Rightarrow> cell" where
  "window_mean w min_periods xs i =
     (let obs = window_obs w xs i; nobs = length obs in
      if min_periods \<le> nobs \<and> 0 < nobs then Some (sum_list obs / of_nat nobs) else None)"

text \<open>
  \<^verbatim>\<open>col.rolling(window=w, min_periods=w).mean()\<close>. The library refuses a window that is no
  integer (a \<^verbatim>\<open>bool\<close> is none for it) or is negative, and a column that holds no numbers.
\<close>

definition rolling_mean :: "column \<Rightarrow> py_value \<Rightarrow> py_exc + cell list" where
  "rolling_mean col w =
     (case w of
        PInt n \<Rightarrow>
          (if n < 0 then Inl (ValueError, ''min_periods must be >= 0'')
           else
             (case col of
                Numeric xs \<Rightarrow>
                  Inr (map (window_mean (nat n) (nat n) xs) [0..<length xs])
              | Object xs \<Rightarrow> Inl (DataError, ''No numeric types to aggregate'')))
      | _ \<Rightarrow> Inl (ValueError, ''min_periods must be an integer''))"

text \<open>A comparison with NaN on either side is false.\<close>

fun gt_cell :: "cell \<Rightarrow> cell \<Rightarrow> bool" where
  "gt_cell (Some x) (Some y) = (y < x)"
| "gt_cell a b = False"

definition astype_int :: "bool list \<Rightarrow> int list" where
  "astype_int bs = map (\<lambda>b. if b then 1 else 0) bs"

definition generate_signals :: "dataframe \<Rightarrow> py_value \<Rightarrow> py_exc + int list" where
  "generate_signals df w =
     (case map_of (columns df) ''close'' of
        None \<Rightarrow> Inl (KeyError, repr_str ''close'')
      | Some col \<Rightarrow>
          (case rolling_mean col w of
             Inl e \<Rightarrow> Inl e
           | Inr rolling \<Rightarrow>
               (case col of
                  Numeric close \<Rightarrow> Inr (astype_int (map2 gt_cell close rolling))
                | Object xs \<Rightarrow>
                    Inl (TypeError, ''Invalid comparison between dtype=object and float''))))"

subsection \<open>The report\<close>

text \<open>\<^verbatim>\<open>signal.mean()\<close> of a series of integers; NaN (\<open>None\<close>) for the empty series.\<close>

definition series_mean :: "int list \<Rightarrow> rat option" where
  "series_mean xs = (if xs = [] then None else Some (of_int (sum_list xs) / of_nat (length xs)))"

text \<open>
  \<^verbatim>\<open>round(x, ndigits)\<close> on exact numbers: to the nearest multiple of \<open>10 ^ -ndigits\<close>, a tie
  to the even one.
\<close>

definition round_half_even :: "rat \<Rightarrow> int" where
  "round_half_even y =
     (let f = \<lfloor>y\<rfloor>; d = y - of_int f in
      if d < 1 / 2 then f
      else if 1 / 2 < d then f + 1
      else if even f then f else f + 1)"

definition py_round :: "rat \<Rightarrow> nat \<Rightarrow> rat" where
  "py_round x ndigits = of_int (round_half_even (x * 10 ^ ndigits)) / 10 ^ ndigits"

datatype run_report =
    Success
      (report_version: py_value) (rows_processed: nat) (metric: string)
      (report_value: "rat option") (latency_ms: nat) (report_seed: py_value) (status: string)
  | Failure (report_version: py_value) (status: string) (error_message: string)

subsection \<open>\<^verbatim>\<open>main\<close>\<close>

text \<open>
  The world of one run: the two paths, what reading each file yields, whether writing a
  given report to the output path fails (and with which text), and the milliseconds the
  clock shows between the start and the report.
\<close>

record world =
  config_path :: string
  input_path :: string
  config_file :: yaml_file
  input_file :: csv_file
  write_fails :: "run_report \<Rightarrow> string option"
  elapsed_ms :: nat

definition write_json :: "world \<Rightarrow> run_report \<Rightarrow> py_exc + unit" where
  "write_json wd payload =
     (case write_fails wd payload of
        None \<Rightarrow> Inr ()
      | Some msg \<Rightarrow> Inl (OSError, msg))"

text \<open>\<^verbatim>\<open>np.random.seed\<close> takes an integer from 0 to \<open>2 ^ 32 - 1\<close>.\<close>

definition np_random_seed :: "py_value \<Rightarrow> py_exc + unit" where
  "np_random_seed sd =
     (if \<not> isinstance_int sd then Inl (TypeError, ''Cannot cast scalar to an integer seed'')
      else if int_of sd < 0 \<or> 2 ^ 32 - 1 < int_of sd then
        Inl (ValueError, ''Seed must be between 0 and 2**32 - 1'')
      else Inr ())"

datatype log_event =
    JobStarted
  | ConfigLoaded py_value py_value py_value
  | ConfigVerified
  | DataLoaded nat
  | RollingMeanCalculated py_value
  | SignalsGenerated
  | Metrics "rat option" nat
  | JobCompleted nat
  | ErrorEncountered string
  | WriteErrorOutputFailed string

text \<open>The variables of \<^verbatim>\<open>main\<close> that the handler of the \<^verbatim>\<open>try\<close> block reads.\<close>

record job_state =
  version_for_error :: py_value
  log :: "log_event list"

definition try_body :: "world \<Rightarrow> job_state \<times> (py_exc + run_report)" where
  "try_body wd =
     (let s0 = \<lparr>version_for_error = PStr ''v1'', log = [JobStarted]\<rparr> in
      case load_config (config_path wd) (config_file wd) of
        Inl e \<Rightarrow> (s0, Inl e)
      | Inr config \<Rightarrow>
          (let s1 = s0\<lparr>version_for_error := version config\<rparr> in
           case np_random_seed (seed config) of
             Inl e \<Rightarrow> (s1, Inl e)
           | Inr u \<Rightarrow>
               (let s2 = s1\<lparr>log := log s1 @
                      [ConfigLoaded (seed config) (window config) (version config),
                       ConfigVerified]\<rparr> in
                case load_data (input_path wd) (input_file wd) of
                  Inl e \<Rightarrow> (s2, Inl e)
                | Inr df \<Rightarrow>
                    (let rows = nrows df;
                         s3 = s2\<lparr>log := log s2 @ [DataLoaded rows]\<rparr> in
                     case generate_signals df (window config) of
                       Inl e \<Rightarrow> (s3, Inl e)
                     | Inr signal \<Rightarrow>
                         (let s4 = s3\<lparr>log := log s3 @
                                [RollingMeanCalculated (window config), SignalsGenerated]\<rparr>;
                              signal_rate = series_mean signal;
                              metrics =
                                Success (version config) rows ''signal_rate''
                                  (map_option (\<lambda>r. py_round r 4) signal_rate)
                                  (elapsed_ms wd) (seed config) ''success''
                          in
                          case write_json wd metrics of
                            Inl e \<Rightarrow> (s4, Inl e)
                          | Inr u \<Rightarrow>
                              (s4\<lparr>log := log s4 @
                                 [Metrics (report_value metrics) rows,
                                  JobCompleted (elapsed_ms wd)]\<rparr>,
                               Inr metrics))))))"

text \<open>
  The outcome of a run: the exit status, the report printed on standard output, the report
  the output file holds once a write has completed, and the log.
\<close>

record run_result =
  exit_code :: int
  printed :: run_report
  written :: "run_report option"
  logged :: "log_event list"

definition main :: "world \<Rightarrow> run_result" where
  "main wd =
     (case try_body wd of
        (s, Inr metrics) \<Rightarrow>
          \<lparr>exit_code = 0, printed = metrics, written = Some metrics, logged = log s\<rparr>
      | (s, Inl exc) \<Rightarrow>
          (let error_payload = Failure (version_for_error s) ''error'' (snd exc);
               log1 = log s @ [ErrorEncountered (snd exc)]
           in
           case write_json wd error_payload of
             Inr u \<Rightarrow>
               \<lparr>exit_code = 1, printed = error_payload, written = Some error_payload,
                logged = log1\<rparr>
           | Inl write_exc \<Rightarrow>
               \<lparr>exit_code = 1, printed = error_payload, written = None,
                logged = log1 @ [WriteErrorOutputFailed (snd write_exc)]\<rparr>))"

subsection \<open>The scenario of the specification\<close>

text \<open>
  Configuration \<^verbatim>\<open>{seed: 42, window: 3, version: "v1"}\<close> and a table with the one column
  \<^verbatim>\<open>close = [1, 2, 3, 10, 1, 1]\<close>, every write succeeding.
\<close>

definition scenario_config :: py_value where
  "scenario_config =
     PDict [(PStr ''seed'', PInt 42), (PStr ''window'', PInt 3), (PStr ''version'', PStr ''v1'')]"

definition scenario_close :: "cell list" where
  "scenario_close = [Some 1, Some 2, Some 3, Some 10, Some 1, Some 1]"

definition scenario_df :: dataframe where
  "scenario_df = \<lparr>nrows = 6, columns = [(''close'', Numeric scenario_close)]\<rparr>"

definition scenario_world :: world where
  "scenario_world =
     \<lparr>config_path = ''config.yaml'', input_path = ''data.csv'',
      config_file = Yaml scenario_config, input_file = Csv scenario_df,
      write_fails = (\<lambda>r. None), elapsed_ms = 0\<rparr>"

subsection \<open>Validation as an ordered list of rules\<close>

text \<open>
  The specification describes validation as rules checked in a fixed order, the first
  violated one giving the error. A rule is a test (true when the rule is violated) and
  the error it raises; each test is read on the file alone, whatever the earlier rules
  found.
\<close>

type_synonym 'a rule = "('a \<Rightarrow> bool) \<times> ('a \<Rightarrow> py_exc)"

fun first_violation :: "'a rule list \<Rightarrow> 'a \<Rightarrow> py_exc option" where
  "first_violation [] x = None"
| "first_violation (r # rs) x = (if fst r x then Some (snd r x) else first_violation rs x)"

text \<open>
  The rules of the configuration: the file exists, it parses, the document is a mapping,
  no required key is absent (the absent ones are listed in alphabetical order), and the
  fields \<^verbatim>\<open>seed\<close>, \<^verbatim>\<open>window\<close>, \<^verbatim>\<open>version\<close> have their types, in this order.
\<close>

definition document :: "yaml_file \<Rightarrow> py_value" where
  "document f = (case f of Yaml v \<Rightarrow> v | _ \<Rightarrow> PNone)"

definition mapping :: "yaml_file \<Rightarrow> py_dict" where
  "mapping f = (case document f of PDict d \<Rightarrow> d | _ \<Rightarrow> [])"




definition absent_keys :: "py_dict \<Rightarrow> string list" where
  "absent_keys d = filter (\<lambda>k. map_of d (PStr k) = None) [''seed'', ''version'', ''window'']"



text \<open>
  The rules of the table: the file exists, it parses, the table is not empty, and it has
  the column \<^verbatim>\<open>close\<close>.
\<close>

definition parse_failed :: "csv_file \<Rightarrow> bool" where
  "parse_failed f = (case f of ParserError exc \<Rightarrow> True | ReadError exc \<Rightarrow> True | _ \<Rightarrow> False)"

definition parse_message :: "csv_file \<Rightarrow> string" where
  "parse_message f = (case f of ParserError exc \<Rightarrow> exc | ReadError exc \<Rightarrow> exc | _ \<Rightarrow> [])"

definition table :: "csv_file \<Rightarrow> dataframe" where
  "table f = (case f of Csv df \<Rightarrow> df | _ \<Rightarrow> \<lparr>nrows = 0, columns = []\<rparr>)"

definition data_rules :: "string \<Rightarrow> csv_file rule list" where
  "data_rules path =
     [(\<lambda>f. f = NoInput,
       \<lambda>f. (FileNotFoundError, ''Input file not found: '' @ path)),
      (parse_failed,
       \<lambda>f. (ValueError, ''Invalid CSV file format: '' @ parse_message f)),
      (\<lambda>f. df_empty (table f),
       \<lambda>f. (ValueError, ''Empty input file.'')),
      (\<lambda>f. ''close'' \<notin> set (map fst (columns (table f))),
       \<lambda>f. (ValueError, ''Missing required columns in dataset: ['close']''))]"

subsection \<open>The signal rate as the specification words it\<close>



subsection \<open>A run that can write nothing\<close>

text \<open>No configuration file, and every write to the output path fails.\<close>

definition unwritable_world :: world where
  "unwritable_world =
     \<lparr>config_path = ''config.yaml'', input_path = ''data.csv'',
      config_file = NoConfig, input_file = Csv scenario_df,
      write_fails = (\<lambda>r. Some ''disk full''), elapsed_ms = 0\<rparr>"

section \<open>Properties\<close>

subsection \<open>How a run ends\<close>

lemma try_body_Inr_iff:
  "snd (try_body wd) = Inr m \<longleftrightarrow>
     (\<exists>cfg df signal.
        load_config (config_path wd) (config_file wd) = Inr cfg \<and>
        np_random_seed (seed cfg) = Inr () \<and>
        load_data (input_path wd) (input_file wd) = Inr df \<and>
        generate_signals df (window cfg) = Inr signal \<and>
        m = Success (version cfg) (nrows df) ''signal_rate''
              (map_option (\<lambda>r. py_round r 4) (series_mean signal))
              (elapsed_ms wd) (seed cfg) ''success'' \<and>
        write_fails wd m = None)"
  unfolding try_body_def write_json_def Let_def
  by (auto split: sum.splits option.splits)

lemma main_of_Inr:
  "snd (try_body wd) = Inr m \<Longrightarrow>
     exit_code (main wd) = 0 \<and> printed (main wd) = m \<and> written (main wd) = Some m"
  unfolding main_def by (cases "try_body wd") auto

lemma main_of_Inl:
  "snd (try_body wd) = Inl e \<Longrightarrow>
     exit_code (main wd) = 1 \<and>
     printed (main wd) = Failure (version_for_error (fst (try_body wd))) ''error'' (snd e)"
  unfolding main_def Let_def by (cases "try_body wd") (auto split: sum.splits)

lemma scenario_load_config:
  "load_config p (Yaml scenario_config) =
     Inr \<lparr>seed = PInt 42, window = PInt 3, version = PStr ''v1''\<rparr>"
  unfolding scenario_config_def by code_simp

lemma scenario_rolling:
  "rolling_mean (Numeric scenario_close) (PInt 3) =
     Inr [None, None, Some 2, Some 5, Some (14 / 3), Some 4]"
  unfolding scenario_close_def by code_simp

lemma scenario_value: "py_round (1 / 3) 4 = 3333 / 10000"
  by code_simp

lemma wf_df_col_len:
  "wf_df df \<Longrightarrow> map_of (columns df) name = Some c \<Longrightarrow> col_len c = nrows df"
  unfolding wf_df_def list_all_iff by (auto dest: map_of_SomeD)

lemma load_data_Csv_ok:
  assumes "0 < nrows df" and "map_of (columns df) ''close'' = Some c"
  shows "load_data p (Csv df) = Inr df"
proof -
  from assms(2) have "(''close'', c) \<in> set (columns df)" by (rule map_of_SomeD)
  then have "''close'' \<in> fst ` set (columns df)" by force
  moreover from this have "columns df \<noteq> []" by auto
  ultimately show ?thesis using assms(1) by (simp add: load_data_def df_empty_def)
qed

lemma scenario_signals:
  assumes "map_of (columns df) ''close'' = Some (Numeric scenario_close)"
  shows "generate_signals df (PInt 3) = Inr [0, 0, 1, 1, 0, 0]"
proof -
  have "astype_int (map2 gt_cell scenario_close [None, None, Some 2, Some 5, Some (14 / 3), Some 4])
      = [0, 0, 1, 1, 0, 0]"
    unfolding scenario_close_def by code_simp
  then show ?thesis
    by (simp add: generate_signals_def assms scenario_rolling)
qed

lemma scenario_rate: "series_mean [0, 0, 1, 1, 0, 0] = Some (1 / 3)"
  by (simp add: series_mean_def)

text \<open>
  C2, as the code has it. With the configuration \<^verbatim>\<open>{seed: 42, window: 3, version: "v1"}\<close>, a
  table whose \<^verbatim>\<open>close\<close> column is 1, 2, 3, 10, 1, 1 and a writable output path, the run
  exits with 0 and reports \<^verbatim>\<open>rows_processed = 6\<close>, \<^verbatim>\<open>status = "success"\<close> and
  \<^verbatim>\<open>value = 0.3333\<close>: the signal is 0, 0, 1, 1, 0, 0 (3 exceeds the mean 2 of 1, 2, 3 and
  10 exceeds the mean 5 of 2, 3, 10), and its mean over all six rows is 1/3.
\<close>

theorem scenario_report:
  assumes cfg: "config_file wd = Yaml scenario_config"
    and inp: "input_file wd = Csv df"
    and wf: "wf_df df"
    and close: "map_of (columns df) ''close'' = Some (Numeric scenario_close)"
    and wr: "write_fails wd = (\<lambda>r. None)"
  shows "exit_code (main wd) = 0 \<and>
    printed (main wd) =
      Success (PStr ''v1'') 6 ''signal_rate'' (Some (3333 / 10000)) (elapsed_ms wd) (PInt 42)
        ''success'' \<and>
    written (main wd) = Some (printed (main wd))"
proof -
  let ?m = "Success (PStr ''v1'') 6 ''signal_rate'' (Some (3333 / 10000)) (elapsed_ms wd)
    (PInt 42) ''success''"
  have rows: "nrows df = 6"
    using wf_df_col_len [OF wf close] by (simp add: scenario_close_def)
  have ld: "load_data (input_path wd) (input_file wd) = Inr df"
    unfolding inp by (rule load_data_Csv_ok [OF _ close]) (simp add: rows)
  have sd: "np_random_seed (PInt 42) = Inr ()"
    by (simp add: np_random_seed_def)
  have "snd (try_body wd) = Inr ?m"
    unfolding try_body_Inr_iff
    apply (rule exI [of _ "\<lparr>seed = PInt 42, window = PInt 3, version = PStr ''v1''\<rparr>"])
    apply (rule exI [of _ df])
    apply (rule exI [of _ "[0, 0, 1, 1, 0, 0]"])
    apply (simp only: cfg scenario_load_config run_config.simps sd ld
        scenario_signals [OF close] scenario_rate rows wr option.map scenario_value)
    done
  from main_of_Inr [OF this] show ?thesis by simp
qed

lemma scenario_world_run:
  "printed (main scenario_world) =
     Success (PStr ''v1'') 6 ''signal_rate'' (Some (3333 / 10000)) 0 (PInt 42) ''success''"
  unfolding scenario_world_def scenario_df_def scenario_close_def scenario_config_def
  by code_simp

text \<open>The scenario itself satisfies the hypotheses of \<open>scenario_report\<close>.\<close>

theorem scenario_report_witness:
  "exit_code (main scenario_world) = 0 \<and>
    printed (main scenario_world) =
      Success (PStr ''v1'') 6 ''signal_rate'' (Some (3333 / 10000)) 0 (PInt 42) ''success'' \<and>
    written (main scenario_world) = Some (printed (main scenario_world))"
proof -
  have "wf_df scenario_df"
    by (simp add: wf_df_def scenario_df_def scenario_close_def)
  moreover have "map_of (columns scenario_df) ''close'' = Some (Numeric scenario_close)"
    by (simp add: scenario_df_def)
  ultimately show ?thesis
    using scenario_report [of scenario_world scenario_df]
    by (simp add: scenario_world_def)
qed

text \<open>C2 as the specification words it: the reported value of the scenario is not 0.25.\<close>

theorem scenario_value_counterexample:
  "report_value (printed (main scenario_world)) \<noteq> Some (1 / 4)"
  by (simp add: scenario_world_run)

text \<open>
  C9: validation takes a \<^verbatim>\<open>bool\<close> for an integer. The configuration
  \<^verbatim>\<open>{seed: true, window: true, version: "v1"}\<close> is returned as valid, whatever the path:
  \<^verbatim>\<open>isinstance(True, int)\<close> holds and \<^verbatim>\<open>True <= 0\<close> does not.
\<close>

theorem bool_config_accepted:
  "load_config p
     (Yaml (PDict [(PStr ''seed'', PBool True), (PStr ''window'', PBool True),
                   (PStr ''version'', PStr ''v1'')])) =
   Inr \<lparr>seed = PBool True, window = PBool True, version = PStr ''v1''\<rparr>"
  by code_simp

subsection \<open>Validation of the configuration and of the table\<close>

lemma key_names_iff: "s \<in> key_names d \<longleftrightarrow> map_of d (PStr s) \<noteq> None"
  by (induction d rule: key_names.induct) auto

lemma sorted_required: "sorted [''seed'', ''version'', ''window''] \<and> distinct [''seed'', ''version'', ''window'']"
  by simp

lemma missing_set: "required_keys - key_names d = set (absent_keys d)"
  by (auto simp: required_keys_def absent_keys_def key_names_iff)

lemma absent_keys_sorted: "sorted (absent_keys d) \<and> distinct (absent_keys d)"
  unfolding absent_keys_def using sorted_required
  by (metis distinct_filter sorted_wrt_filter)

lemma sorted_missing: "sorted_list_of_set (required_keys - key_names d) = absent_keys d"
  unfolding missing_set using absent_keys_sorted
  by (simp add: sorted_list_of_set.idem_if_sorted_distinct)

lemma load_config_missing:
  "absent_keys d \<noteq> [] \<Longrightarrow>
     load_config path (Yaml (PDict d)) =
       Inl (ValueError, ''Invalid configuration file structure: missing keys '' @
         repr_list (absent_keys d))"
proof -
  assume "absent_keys d \<noteq> []"
  then have "required_keys - key_names d \<noteq> {}"
    unfolding missing_set by simp
  then show ?thesis
    unfolding load_config_def Let_def by (simp add: sorted_missing)
qed










text \<open>
  C5: a configuration that parses to a mapping and lacks one of the keys \<^verbatim>\<open>seed\<close>,
  \<^verbatim>\<open>window\<close>, \<^verbatim>\<open>version\<close> is refused with a message that lists exactly the missing keys,
  each once, in sorted order.
\<close>

theorem missing_keys_listed:
  assumes "k \<in> required_keys" and "map_of d (PStr k) = None"
  shows "load_config path (Yaml (PDict d)) =
      Inl (ValueError, ''Invalid configuration file structure: missing keys '' @
        repr_list (absent_keys d)) \<and>
    set (absent_keys d) = {k \<in> required_keys. map_of d (PStr k) = None} \<and>
    sorted (absent_keys d) \<and> distinct (absent_keys d)"
proof -
  from assms have "k \<in> set (absent_keys d)"
    by (auto simp: absent_keys_def required_keys_def)
  then have "absent_keys d \<noteq> []" by auto
  then have "load_config path (Yaml (PDict d)) =
      Inl (ValueError, ''Invalid configuration file structure: missing keys '' @
        repr_list (absent_keys d))"
    by (rule load_config_missing)
  moreover have "set (absent_keys d) = {k \<in> required_keys. map_of d (PStr k) = None}"
    by (auto simp: absent_keys_def required_keys_def)
  ultimately show ?thesis
    using absent_keys_sorted by blast
qed

text \<open>A mapping with \<^verbatim>\<open>seed\<close> alone: the message lists \<^verbatim>\<open>version\<close>, then \<^verbatim>\<open>window\<close>.\<close>

theorem missing_keys_listed_witness:
  "''window'' \<in> required_keys \<and>
   map_of [(PStr ''seed'', PInt 7)] (PStr ''window'') = None \<and>
   load_config ''config.yaml'' (Yaml (PDict [(PStr ''seed'', PInt 7)])) =
     Inl (ValueError,
       ''Invalid configuration file structure: missing keys ['version', 'window']'')"
proof -
  have k: "''window'' \<in> required_keys" by (simp add: required_keys_def)
  have m: "map_of [(PStr ''seed'', PInt 7)] (PStr ''window'') = None" by simp
  have "repr_list (absent_keys [(PStr ''seed'', PInt 7)]) = ''['version', 'window']''"
    by (simp add: absent_keys_def repr_list_def repr_str_def)
  with missing_keys_listed [OF k m, of "''config.yaml''"] k m show ?thesis
    by simp
qed

lemma first_violation_data_Csv:
  "first_violation (data_rules path) (Csv df) =
     (if df_empty df then Some (ValueError, ''Empty input file.'')
      else if ''close'' \<notin> set (map fst (columns df)) then
        Some (ValueError, ''Missing required columns in dataset: ['close']'')
      else None)"
  by (simp add: data_rules_def parse_failed_def table_def)

text \<open>
  C6: for every path and every state of the file, \<^verbatim>\<open>load_data\<close> raises the error of the
  first violated rule in the order existence, parse failure, emptiness, \<^verbatim>\<open>close\<close> column,
  and returns the table when none is violated. A parse failure and an empty input raise
  different errors: the message of the first starts \<^verbatim>\<open>Invalid CSV file format\<close>, that of
  the second is \<^verbatim>\<open>Empty input file.\<close>, whether the parser reports the emptiness or the
  table has no row.
\<close>

theorem load_data_first_violation:
  "load_data path f =
     (case first_violation (data_rules path) f of
        Some e \<Rightarrow> Inl e
      | None \<Rightarrow> Inr (table f)) \<and>
   load_data path (ParserError exc) \<noteq> load_data path EmptyData \<and>
   load_data path (ParserError exc) \<noteq> load_data path (Csv \<lparr>nrows = 0, columns = cols\<rparr>)"
proof -
  have "load_data path f =
     (case first_violation (data_rules path) f of
        Some e \<Rightarrow> Inl e
      | None \<Rightarrow> Inr (table f))"
  proof (cases f)
    case (Csv df)
    then show ?thesis
      unfolding Csv first_violation_data_Csv
      by (simp add: load_data_def table_def)
  qed (simp_all add: load_data_def data_rules_def parse_failed_def parse_message_def
      table_def df_empty_def)
  moreover have "load_data path (ParserError exc) \<noteq> load_data path EmptyData"
    by (simp add: load_data_def)
  moreover have "load_data path (ParserError exc) \<noteq>
      load_data path (Csv \<lparr>nrows = 0, columns = cols\<rparr>)"
    by (simp add: load_data_def df_empty_def)
  ultimately show ?thesis by blast
qed

text \<open>
  An empty table without \<^verbatim>\<open>close\<close> is refused as empty, a table with a row and without
  \<^verbatim>\<open>close\<close> for the missing column, a parse failure with the parser's text.
\<close>

theorem load_data_first_violation_witness:
  "load_data ''data.csv'' (Csv \<lparr>nrows = 0, columns = [(''open'', Numeric [])]\<rparr>) =
     Inl (ValueError, ''Empty input file.'') \<and>
   load_data ''data.csv'' (Csv \<lparr>nrows = 1, columns = [(''open'', Numeric [Some 1])]\<rparr>) =
     Inl (ValueError, ''Missing required columns in dataset: ['close']'') \<and>
   load_data ''data.csv'' (ParserError ''bad line'') =
     Inl (ValueError, ''Invalid CSV file format: bad line'')"
  by (simp add: load_data_first_violation [of _ _ "[]" "[]"] data_rules_def parse_failed_def
      parse_message_def table_def df_empty_def)

subsection \<open>The signal and the reported value\<close>

lemma map2_upt:
  "map2 f xs (map g [0..<length xs]) = map (\<lambda>i. f (xs ! i) (g i)) [0..<length xs]"
  by (rule nth_equalityI) simp_all

lemma generate_signals_numeric:
  assumes "map_of (columns df) ''close'' = Some (Numeric close)" and "0 \<le> w"
  shows "generate_signals df (PInt w) =
    Inr (map (\<lambda>i. if gt_cell (close ! i) (window_mean (nat w) (nat w) close i) then 1 else 0)
      [0..<length close])"
  using assms
  by (simp add: generate_signals_def rolling_mean_def astype_int_def map2_upt)

lemma generate_signals_InrD:
  assumes "generate_signals df wv = Inr signal"
  shows "\<exists>close w. map_of (columns df) ''close'' = Some (Numeric close) \<and> wv = PInt w \<and> 0 \<le> w"
  using assms
  by (auto simp: generate_signals_def rolling_mean_def
      split: option.splits sum.splits column.splits py_value.splits if_splits)

lemma length_window_obs: "length (window_obs w xs i) \<le> Suc i"
proof -
  have "length (List.map_filter id ys) \<le> length ys" for ys :: "cell list"
    by (simp add: map_filter_def)
  from this [of "take (Suc i - (Suc i - w)) (drop (Suc i - w) xs)"]
  have "length (window_obs w xs i) \<le> length (take (Suc i - (Suc i - w)) (drop (Suc i - w) xs))"
    by (simp only: window_obs_def Let_def)
  also have "\<dots> \<le> Suc i" by simp
  finally show ?thesis .
qed

lemma window_mean_early:
  assumes "Suc i < w"
  shows "window_mean w w xs i = None"
  using length_window_obs [of w xs i] assms
  by (simp add: window_mean_def Let_def)








lemma signal_props:
  assumes "map_of (columns df) ''close'' = Some (Numeric close)" and "0 \<le> w"
    and "generate_signals df (PInt w) = Inr signal"
  shows "length signal = length close"
    and "i < length close \<Longrightarrow> signal ! i = 0 \<or> signal ! i = 1"
    and "i < length close \<Longrightarrow> int i < w - 1 \<or> close ! i = None \<Longrightarrow> signal ! i = 0"
proof -
  from assms have sig: "signal =
      map (\<lambda>i. if gt_cell (close ! i) (window_mean (nat w) (nat w) close i) then 1 else 0)
        [0..<length close]"
    by (simp add: generate_signals_numeric)
  show "length signal = length close" by (simp add: sig)
  show "signal ! i = 0 \<or> signal ! i = 1" if "i < length close"
    using that by (simp add: sig)
  show "signal ! i = 0" if "i < length close" and "int i < w - 1 \<or> close ! i = None"
  proof -
    from that(2) have "\<not> gt_cell (close ! i) (window_mean (nat w) (nat w) close i)"
    proof
      assume "int i < w - 1"
      then have "Suc i < nat w" by simp
      then show ?thesis by (simp add: window_mean_early)
    next
      assume "close ! i = None"
      then show ?thesis by simp
    qed
    with that(1) show ?thesis by (simp add: sig)
  qed
qed

lemma sum_list_01:
  "(\<And>i. i < length xs \<Longrightarrow> xs ! i = 0 \<or> xs ! i = (1 :: int)) \<Longrightarrow>
     sum_list xs = int (length (filter (\<lambda>x. x = 1) xs))"
proof (induction xs)
  case Nil
  then show ?case by simp
next
  case (Cons x xs)
  from Cons.prems [of 0] have x: "x = 0 \<or> x = 1" by simp
  have "xs ! i = 0 \<or> xs ! i = 1" if "i < length xs" for i
    using Cons.prems [of "Suc i"] that by simp
  then have "sum_list xs = int (length (filter (\<lambda>x. x = 1) xs))" by (rule Cons.IH)
  with x show ?case by auto
qed

lemma load_config_InrD:
  assumes "load_config p f = Inr cfg"
  shows "isinstance_int (seed cfg) \<and> isinstance_int (window cfg) \<and> 0 < int_of (window cfg) \<and>
    isinstance_str (version cfg) \<and> str_of (version cfg) \<noteq> []"
proof -
  from assms obtain d where f: "f = Yaml (PDict d)"
    by (auto simp: load_config_def split: yaml_file.splits py_value.splits)
  from assms obtain a b c where "check_fields a b c = Inr cfg"
    unfolding f load_config_def Let_def
    by (auto split: if_splits sum.splits)
  then show ?thesis
    by (auto simp: check_fields_def split: if_splits)
qed

lemma exit_code_0_iff: "exit_code (main wd) = 0 \<longleftrightarrow> (\<exists>m. snd (try_body wd) = Inr m)"
proof (cases "snd (try_body wd)")
  case (Inl e)
  with main_of_Inl [OF Inl] show ?thesis by simp
next
  case (Inr m)
  with main_of_Inr [OF Inr] show ?thesis by simp
qed

lemma success_run:
  assumes "exit_code (main wd) = 0" and "input_file wd = Csv df"
  shows "\<exists>cfg w close signal.
    load_config (config_path wd) (config_file wd) = Inr cfg \<and>
    window cfg = PInt w \<and> 0 < w \<and>
    map_of (columns df) ''close'' = Some (Numeric close) \<and>
    generate_signals df (PInt w) = Inr signal \<and>
    printed (main wd) =
      Success (version cfg) (nrows df) ''signal_rate''
        (map_option (\<lambda>r. py_round r 4) (series_mean signal))
        (elapsed_ms wd) (seed cfg) ''success''"
proof -
  from assms(1) obtain m where m: "snd (try_body wd) = Inr m"
    by (auto simp: exit_code_0_iff)
  then obtain cfg df' signal where
    cfg: "load_config (config_path wd) (config_file wd) = Inr cfg" and
    ld: "load_data (input_path wd) (input_file wd) = Inr df'" and
    gs: "generate_signals df' (window cfg) = Inr signal" and
    meq: "m = Success (version cfg) (nrows df') ''signal_rate''
              (map_option (\<lambda>r. py_round r 4) (series_mean signal))
              (elapsed_ms wd) (seed cfg) ''success''"
    unfolding try_body_Inr_iff by blast
  from ld have df': "df' = df"
    unfolding assms(2) by (auto simp: load_data_def split: if_splits)
  from generate_signals_InrD [OF gs] obtain close w where
    cl: "map_of (columns df') ''close'' = Some (Numeric close)" and w: "window cfg = PInt w"
    by blast
  from load_config_InrD [OF cfg] w have "0 < w" by simp
  with cfg w cl gs meq main_of_Inr [OF m] show ?thesis
    unfolding df' by auto
qed

lemma round_half_even_near:
  "\<bar>of_int (round_half_even y) - y\<bar> \<le> 1 / 2"
proof -
  have "of_int \<lfloor>y\<rfloor> \<le> y" and "y < of_int \<lfloor>y\<rfloor> + 1" by linarith+
  then show ?thesis
    by (auto simp: round_half_even_def Let_def)
qed

lemma round_half_even_range:
  assumes "0 \<le> y" and "y \<le> of_int n"
  shows "0 \<le> round_half_even y \<and> round_half_even y \<le> n"
proof -
  from assms(1) have lo: "0 \<le> \<lfloor>y\<rfloor>" by simp
  show ?thesis
  proof (cases "y = of_int n")
    case True
    then show ?thesis using assms(1) by (simp add: round_half_even_def)
  next
    case False
    with assms(2) have "y < of_int n" by simp
    then have "\<lfloor>y\<rfloor> < n" by (simp add: floor_less_iff)
    with lo show ?thesis by (auto simp: round_half_even_def Let_def)
  qed
qed

lemma py_round_range:
  assumes "0 \<le> x" and "x \<le> 1"
  shows "0 \<le> py_round x 4 \<and> py_round x 4 \<le> 1"
proof -
  from assms have "0 \<le> x * 10 ^ 4" and "x * 10 ^ 4 \<le> of_int 10000" by simp_all
  from round_half_even_range [OF this] show ?thesis
    by (simp add: py_round_def)
qed

lemma py_round_near: "\<bar>py_round x 4 - x\<bar> \<le> 1 / 20000"
proof -
  define d where "d = of_int (round_half_even (x * 10 ^ 4)) - x * 10 ^ 4"
  have d: "\<bar>d\<bar> \<le> 1 / 2"
    unfolding d_def by (rule round_half_even_near)
  have "py_round x 4 - x = d / 10000"
    by (simp add: py_round_def d_def field_simps)
  then have "\<bar>py_round x 4 - x\<bar> = \<bar>d\<bar> / 10000"
    by (simp only: abs_divide)
  with d show ?thesis by simp
qed

lemma series_mean_01:
  assumes "signal \<noteq> []" and "\<And>i. i < length signal \<Longrightarrow> signal ! i = 0 \<or> signal ! i = 1"
  shows "series_mean signal =
    Some (of_nat (length (filter (\<lambda>s. s = 1) signal)) / of_nat (length signal))"
  using sum_list_01 [of signal] assms by (simp add: series_mean_def)

lemma rate_in_unit:
  assumes "0 < (n :: nat)" and "k \<le> n"
  shows "0 \<le> (of_nat k / of_nat n :: rat) \<and> (of_nat k / of_nat n :: rat) \<le> 1"
  using assms by simp


lemma success_signal:
  assumes "exit_code (main wd) = 0" and "input_file wd = Csv df" and "wf_df df"
  shows "\<exists>cfg w close signal.
    load_config (config_path wd) (config_file wd) = Inr cfg \<and>
    window cfg = PInt w \<and> 0 < w \<and>
    map_of (columns df) ''close'' = Some (Numeric close) \<and>
    generate_signals df (PInt w) = Inr signal \<and>
    length close = nrows df \<and> 0 < nrows df \<and> length signal = nrows df \<and>
    printed (main wd) =
      Success (version cfg) (nrows df) ''signal_rate''
        (map_option (\<lambda>r. py_round r 4) (series_mean signal))
        (elapsed_ms wd) (seed cfg) ''success''"
proof -
  from success_run [OF assms(1,2)] obtain cfg w close signal where
    r: "load_config (config_path wd) (config_file wd) = Inr cfg"
      "window cfg = PInt w" "0 < w"
      "map_of (columns df) ''close'' = Some (Numeric close)"
      "generate_signals df (PInt w) = Inr signal"
      "printed (main wd) =
        Success (version cfg) (nrows df) ''signal_rate''
          (map_option (\<lambda>r. py_round r 4) (series_mean signal))
          (elapsed_ms wd) (seed cfg) ''success''"
    by blast
  from wf_df_col_len [OF assms(3) r(4)] have len: "length close = nrows df" by simp
  from r(3) have "0 \<le> w" by simp
  from signal_props(1) [OF r(4) this r(5)] len have sl: "length signal = nrows df" by simp
  from assms(1) obtain m where "snd (try_body wd) = Inr m"
    by (auto simp: exit_code_0_iff)
  then have "load_data (input_path wd) (Csv df) = Inr df"
    unfolding try_body_Inr_iff assms(2) by (auto simp: load_data_def split: if_splits)
  then have "0 < nrows df"
    by (auto simp: load_data_def df_empty_def split: if_splits)
  with r len sl show ?thesis by blast
qed


text \<open>
  C8: in every successful run the reported value lies between 0 and 1 and is a multiple of
  \<open>10 ^ -4\<close>, at most half a unit of the fourth decimal place away from the signal rate.
\<close>

theorem reported_value_in_unit_interval:
  assumes "exit_code (main wd) = 0" and "input_file wd = Csv df" and "wf_df df"
  shows "\<exists>v r signal cfg. load_config (config_path wd) (config_file wd) = Inr cfg \<and>
    generate_signals df (window cfg) = Inr signal \<and> series_mean signal = Some r \<and>
    report_value (printed (main wd)) = Some v \<and>
    0 \<le> v \<and> v \<le> 1 \<and> (\<exists>k :: int. v = of_int k / 10 ^ 4) \<and> \<bar>v - r\<bar> \<le> 1 / 20000"
proof -
  from success_signal [OF assms] obtain cfg w close signal where
    r: "load_config (config_path wd) (config_file wd) = Inr cfg"
      "window cfg = PInt w" "0 < w"
      "map_of (columns df) ''close'' = Some (Numeric close)"
      "generate_signals df (PInt w) = Inr signal"
      "length close = nrows df" "0 < nrows df" "length signal = nrows df"
      "printed (main wd) =
        Success (version cfg) (nrows df) ''signal_rate''
          (map_option (\<lambda>r. py_round r 4) (series_mean signal))
          (elapsed_ms wd) (seed cfg) ''success''"
    by blast
  from r(3) have w: "0 \<le> w" by simp
  let ?k = "length (filter (\<lambda>s. s = 1) signal)"
  let ?r = "of_nat ?k / of_nat (length signal) :: rat"
  have "signal ! i = 0 \<or> signal ! i = 1" if "i < length signal" for i
    using signal_props(2) [OF r(4) w r(5), of i] that r(6,8) by simp
  moreover from r(7,8) have ne: "signal \<noteq> []" by auto
  ultimately have sm: "series_mean signal = Some ?r"
    by (intro series_mean_01) auto
  have "?k \<le> length signal" by simp
  with ne have "0 \<le> ?r \<and> ?r \<le> 1"
    by (intro rate_in_unit) simp_all
  then have range: "0 \<le> py_round ?r 4 \<and> py_round ?r 4 \<le> 1"
    using py_round_range by blast
  have dec: "\<exists>k :: int. py_round ?r 4 = of_int k / 10 ^ 4"
    unfolding py_round_def by blast
  from r(9) sm have "report_value (printed (main wd)) = Some (py_round ?r 4)" by simp
  with r(1,2,5) sm range dec py_round_near [of ?r] show ?thesis
    by (intro exI [of _ "py_round ?r 4"] exI [of _ ?r] exI [of _ signal] exI [of _ cfg]) simp
qed

lemma scenario_exit: "exit_code (main scenario_world) = 0"
  unfolding scenario_world_def scenario_df_def scenario_close_def scenario_config_def
  by code_simp

lemma scenario_wf: "wf_df scenario_df"
  by (simp add: wf_df_def scenario_df_def scenario_close_def)



text \<open>
  The scenario again.
\<close>

theorem reported_value_in_unit_interval_witness:
  "exit_code (main scenario_world) = 0 \<and> input_file scenario_world = Csv scenario_df \<and>
   wf_df scenario_df \<and>
   (\<exists>v r signal cfg.
      load_config (config_path scenario_world) (config_file scenario_world) = Inr cfg \<and>
      generate_signals scenario_df (window cfg) = Inr signal \<and> series_mean signal = Some r \<and>
      report_value (printed (main scenario_world)) = Some v \<and>
      0 \<le> v \<and> v \<le> 1 \<and> (\<exists>k :: int. v = of_int k / 10 ^ 4) \<and> \<bar>v - r\<bar> \<le> 1 / 20000)"
proof -
  have h: "input_file scenario_world = Csv scenario_df"
    by (simp add: scenario_world_def)
  from reported_value_in_unit_interval [OF scenario_exit h scenario_wf] scenario_exit h
    scenario_wf
  show ?thesis by blast
qed





lemma status_of_run:
  "snd (try_body wd) = Inr m \<Longrightarrow> status (printed (main wd)) = ''success''"
  "snd (try_body wd) = Inl e \<Longrightarrow> status (printed (main wd)) = ''error''"
proof -
  show "status (printed (main wd)) = ''success''" if "snd (try_body wd) = Inr m"
    using main_of_Inr [OF that] that unfolding try_body_Inr_iff by auto
  show "status (printed (main wd)) = ''error''" if "snd (try_body wd) = Inl e"
    using main_of_Inl [OF that] by simp
qed

lemma failed_write_logged:
  assumes "snd (try_body wd) = Inl e" and "write_fails wd (printed (main wd)) = Some msg"
  shows "written (main wd) = None \<and> last (logged (main wd)) = WriteErrorOutputFailed msg"
proof -
  obtain s where tb: "try_body wd = (s, Inl e)"
    using assms(1) by (cases "try_body wd") auto
  from main_of_Inl [OF assms(1)] tb
  have p: "printed (main wd) = Failure (version_for_error s) ''error'' (snd e)" by simp
  with assms(2) have "write_fails wd (Failure (version_for_error s) ''error'' (snd e)) = Some msg"
    by simp
  then show ?thesis
    by (simp add: main_def tb Let_def write_json_def)
qed

text \<open>
  C7: the exit status is 0 or 1; it is 0 exactly when the run reaches the success report
  (the \<^verbatim>\<open>try\<close> block returns the metrics, and the printed report has the status
  \<^verbatim>\<open>success\<close>). When the failure report cannot be written, the status is still 1, nothing
  is written and the last line of the log records the failed write.
\<close>

theorem exit_status:
  "(exit_code (main wd) = 0 \<or> exit_code (main wd) = 1) \<and>
   (exit_code (main wd) = 0 \<longleftrightarrow> status (printed (main wd)) = ''success'') \<and>
   (exit_code (main wd) = 0 \<longleftrightarrow> (\<exists>m. snd (try_body wd) = Inr m)) \<and>
   (exit_code (main wd) = 1 \<and> write_fails wd (printed (main wd)) = Some msg \<longrightarrow>
      written (main wd) = None \<and> last (logged (main wd)) = WriteErrorOutputFailed msg)"
proof (cases "snd (try_body wd)")
  case (Inl e)
  from main_of_Inl [OF Inl] have "exit_code (main wd) = 1" by simp
  with status_of_run(2) [OF Inl] failed_write_logged [OF Inl] Inl
  show ?thesis by auto
next
  case (Inr m)
  from main_of_Inr [OF Inr] have "exit_code (main wd) = 0" by simp
  with status_of_run(1) [OF Inr] Inr
  show ?thesis by auto
qed

lemma unwritable_run:
  "main unwritable_world =
     \<lparr>exit_code = 1,
      printed = Failure (PStr ''v1'') ''error'' ''Config file not found: config.yaml'',
      written = None,
      logged = [JobStarted, ErrorEncountered ''Config file not found: config.yaml'',
                WriteErrorOutputFailed ''disk full'']\<rparr>"
  unfolding unwritable_world_def by code_simp

text \<open>
  A run without configuration file whose output path cannot be written.
\<close>

theorem exit_status_witness:
  "exit_code (main unwritable_world) = 1 \<and>
   write_fails unwritable_world (printed (main unwritable_world)) = Some ''disk full'' \<and>
   status (printed (main unwritable_world)) \<noteq> ''success'' \<and>
   written (main unwritable_world) = None \<and>
   last (logged (main unwritable_world)) = WriteErrorOutputFailed ''disk full''"
proof -
  have e: "exit_code (main unwritable_world) = 1"
    by (simp add: unwritable_run)
  have w: "write_fails unwritable_world (printed (main unwritable_world)) = Some ''disk full''"
    by (simp add: unwritable_world_def)
  from exit_status [of unwritable_world "''disk full''"] e w show ?thesis
    by simp
qed

end
